theory Spec2Isabelle
  imports Complex_Main "HOL-Library.Option_ord"
begin

section \<open>Python values\<close>

text \<open>
  A Python \<open>str\<close> is a sequence of Unicode code points, and \<open>len\<close>, indexing and
  slicing count code points; a string is therefore modelled as a list of code point
  numbers. \<open>py\<close> turns an ASCII literal into such a list.
\<close>

type_synonym pystr = "nat list"

definition py :: "string \<Rightarrow> pystr" where
  "py s = map of_char s"

text \<open>
  Exceptions are values. \<open>TypeError\<close>, \<open>ValueError\<close> and every other error derived
  from \<open>Exception\<close> (written \<open>Exception msg\<close>) are caught by \<open>except Exception\<close>;
  \<open>SystemExit\<close> and \<open>KeyboardInterrupt\<close> derive from \<open>BaseException\<close> only and
  pass through such a handler.
\<close>

datatype py_error = TypeError | ValueError pystr | Exception pystr | SystemExit | KeyboardInterrupt

fun is_Exception :: "py_error \<Rightarrow> bool" where
  "is_Exception TypeError = True"
| "is_Exception (ValueError msg) = True"
| "is_Exception (Exception msg) = True"
| "is_Exception SystemExit = False"
| "is_Exception KeyboardInterrupt = False"

text \<open>
  \<open>min(xs, key=k)\<close> on a non-empty list: the first element whose key is minimal
  (a later element replaces the current best only when its key is strictly smaller).
\<close>

fun py_min_key :: "('a \<Rightarrow> 'k::linorder) \<Rightarrow> 'a \<Rightarrow> 'a list \<Rightarrow> 'a" where
  "py_min_key key best [] = best"
| "py_min_key key best (x # xs) = py_min_key key (if key x < key best then x else best) xs"

section \<open>Double-precision arithmetic\<close>

text \<open>
  A Python \<open>float\<close> is an IEEE 754 binary64 number. A finite double is a real number
  \<open>m * 2 ^ e\<close> with \<open>\<bar>m\<bar> < 2 ^ 53\<close> and \<open>e \<ge> -1074\<close>, and it is modelled by that real.
  The sum or difference of two finite doubles is their exact sum or difference
  rounded to the nearest double, a tie going to the even mantissa: \<open>ulp_exponent\<close> is
  the exponent of the spacing of the doubles around \<open>x\<close>. A result whose rounded
  magnitude reaches \<open>2 ^ 1024\<close> is an infinity; it is represented by \<open>2 ^ 1024\<close> with
  its sign, which compares with every finite double as the infinity does. Operands
  are finite doubles, so no operation below yields a NaN.
\<close>

definition round_half_even :: "real \<Rightarrow> int" where
  "round_half_even q =
     (let f = \<lfloor>q\<rfloor> in
      if q - of_int f < 1 / 2 then f
      else if 1 / 2 < q - of_int f then f + 1
      else if even f then f else f + 1)"

definition ulp_exponent :: "real \<Rightarrow> int" where
  "ulp_exponent x = max (\<lfloor>log 2 \<bar>x\<bar>\<rfloor> - 52) (- 1074)"

definition round_double :: "real \<Rightarrow> real" where
  "round_double x =
     (if x = 0 then 0
      else let u = 2 powi (ulp_exponent x);
               r = of_int (round_half_even (x / u)) * u
           in if 2 ^ 1024 \<le> \<bar>r\<bar> then sgn x * 2 ^ 1024 else r)"

definition double_add :: "real \<Rightarrow> real \<Rightarrow> real" where
  "double_add x y = round_double (x + y)"

definition double_sub :: "real \<Rightarrow> real \<Rightarrow> real" where
  "double_sub x y = round_double (x - y)"

lemma floor_log2_binade:
  assumes "2 powi k \<le> x" and "x < 2 powi (k + 1)"
  shows "\<lfloor>log 2 x\<rfloor> = k"
proof -
  have "(0::real) < 2 powi k"
    by simp
  then have pos: "0 < x"
    using assms(1) by linarith
  have lo: "(2::real) powr real_of_int k = 2 powi k"
    by (rule powr_real_of_int') simp_all
  have hi: "(2::real) powr real_of_int (k + 1) = 2 powi (k + 1)"
    by (rule powr_real_of_int') simp_all
  have "2 powr real_of_int k \<le> x \<and> x < 2 powr real_of_int (k + 1)"
    unfolding lo hi using assms by simp
  then show ?thesis
    using floor_log_eq_powr_iff [of x 2 k] pos by simp
qed

lemma round_double_binade:
  fixes x :: real
  assumes "2 powi k \<le> \<bar>x\<bar>" and "\<bar>x\<bar> < 2 powi (k + 1)" and "- 1022 \<le> k"
    and "r = real_of_int (round_half_even (x / 2 powi (k - 52))) * 2 powi (k - 52)"
    and "\<bar>r\<bar> < 2 ^ 1024"
  shows "round_double x = r"
proof -
  have "(0::real) < 2 powi k"
    by simp
  then have "0 < \<bar>x\<bar>"
    using assms(1) by linarith
  then have nz: "x \<noteq> 0"
    by simp
  have "ulp_exponent x = k - 52"
    using floor_log2_binade [OF assms(1,2)] assms(3) by (simp add: ulp_exponent_def)
  then show ?thesis
    using nz assms(4,5) by (simp add: round_double_def Let_def)
qed

section \<open>The relational store\<close>

text \<open>
  The models \<open>Video\<close>, \<open>Section\<close> and \<open>Frame\<close> of \<open>app/models\<close>. Only the primary
  key is non-null; every other column is nullable, so it holds an optional value.
  A \<open>Float\<close> column holds a finite double.
  The columns \<open>created_at\<close> and \<open>updated_at\<close> are read by none of the operations
  below and are left out. A table is the list of its rows in insertion order.
\<close>

record video =
  v_id :: int
  v_url :: "pystr option"
  v_title :: "pystr option"

record section_row =
  s_id :: int
  s_video_id :: "int option"
  s_title :: "pystr option"
  s_start_time :: "real option"
  s_end_time :: "real option"

record frame =
  f_id :: int
  f_video_id :: "int option"
  f_timestamp :: "real option"
  f_path :: "pystr option"

text \<open>
  SQL comparisons of a column with a bound value: a NULL column makes the
  comparison unknown, and a \<open>WHERE\<close> clause keeps only the rows where it is true.
\<close>

definition sql_eq :: "'a option \<Rightarrow> 'a \<Rightarrow> bool" where
  "sql_eq c v = (case c of None \<Rightarrow> False | Some x \<Rightarrow> x = v)"

definition sql_ge :: "real option \<Rightarrow> real \<Rightarrow> bool" where
  "sql_ge c v = (case c of None \<Rightarrow> False | Some x \<Rightarrow> v \<le> x)"

definition sql_le :: "real option \<Rightarrow> real \<Rightarrow> bool" where
  "sql_le c v = (case c of None \<Rightarrow> False | Some x \<Rightarrow> x \<le> v)"

section \<open>Frame extractor: nearest-timestamp lookup\<close>

text \<open>
  \<open>FrameExtractorService.get_frame_by_timestamp\<close>. Python computes the bounds
  \<open>timestamp - tolerance\<close> and \<open>timestamp + tolerance\<close> in double arithmetic before
  they are bound to the query. The query keeps the rows of the video whose timestamp
  lies between the two bounds and orders them by timestamp (NULLs first, the order
  of \<open>option\<close>; rows with equal timestamps keep their table order). The key of \<open>min\<close>
  is \<open>abs(f.timestamp - timestamp)\<close>, again a double subtraction, which raises
  \<open>TypeError\<close> on \<open>None\<close>.
\<close>

definition timestamp_window_query :: "frame list \<Rightarrow> int \<Rightarrow> real \<Rightarrow> real \<Rightarrow> frame list" where
  "timestamp_window_query db video_id timestamp tolerance =
     sort_key f_timestamp
       (filter (\<lambda>f. sql_eq (f_video_id f) video_id
                   \<and> sql_ge (f_timestamp f) (double_sub timestamp tolerance)
                   \<and> sql_le (f_timestamp f) (double_add timestamp tolerance)) db)"

definition abs_time_difference :: "real \<Rightarrow> frame \<Rightarrow> real option" where
  "abs_time_difference timestamp f =
     (case f_timestamp f of None \<Rightarrow> None | Some ts \<Rightarrow> Some \<bar>double_sub ts timestamp\<bar>)"

definition get_frame_by_timestamp ::
  "frame list \<Rightarrow> int \<Rightarrow> real \<Rightarrow> real \<Rightarrow> py_error + frame option" where
  "get_frame_by_timestamp db video_id timestamp tolerance =
     (let frames = timestamp_window_query db video_id timestamp tolerance in
      case frames of
        [] \<Rightarrow> Inr None
      | f # fs \<Rightarrow>
          if \<exists>g \<in> set frames. abs_time_difference timestamp g = None then Inl TypeError
          else Inr (Some (py_min_key (\<lambda>g. the (abs_time_difference timestamp g)) f fs)))"

text \<open>
  The window and the distance of the specification, in exact arithmetic, and the
  window and the distance that the code computes.
\<close>

definition in_window :: "int \<Rightarrow> real \<Rightarrow> real \<Rightarrow> frame \<Rightarrow> bool" where
  "in_window video_id t w f =
     (f_video_id f = Some video_id \<and>
      (case f_timestamp f of None \<Rightarrow> False | Some ts \<Rightarrow> t - w \<le> ts \<and> ts \<le> t + w))"

definition time_distance :: "real \<Rightarrow> frame \<Rightarrow> real" where
  "time_distance t f = (case f_timestamp f of None \<Rightarrow> 0 | Some ts \<Rightarrow> \<bar>ts - t\<bar>)"

definition in_computed_window :: "int \<Rightarrow> real \<Rightarrow> real \<Rightarrow> frame \<Rightarrow> bool" where
  "in_computed_window video_id t w f =
     (f_video_id f = Some video_id \<and>
      (case f_timestamp f of
         None \<Rightarrow> False
       | Some ts \<Rightarrow> double_sub t w \<le> ts \<and> ts \<le> double_add t w))"

definition computed_distance :: "real \<Rightarrow> frame \<Rightarrow> real" where
  "computed_distance t f =
     (case f_timestamp f of None \<Rightarrow> 0 | Some ts \<Rightarrow> \<bar>double_sub ts t\<bar>)"

text \<open>
  Sample doubles: the doubles nearest to 0.1 and to 0.2, the double
  0.30000000000000004 that Python computes for their sum, and the double \<open>-2 ^ -60\<close>;
  \<open>frame_at i ts\<close> is the frame \<open>i\<close> of video 1 with timestamp \<open>ts\<close>.
\<close>

definition d_tenth :: real where "d_tenth = 3602879701896397 / 2 ^ 55"
definition d_fifth :: real where "d_fifth = 3602879701896397 / 2 ^ 54"
definition d_sum :: real where "d_sum = 1351079888211149 / 2 ^ 52"

definition d_tiny :: real where "d_tiny = - (1 / 2 ^ 60)"

definition frame_at :: "int \<Rightarrow> real \<Rightarrow> frame" where
  "frame_at i ts = \<lparr>f_id = i, f_video_id = Some 1, f_timestamp = Some ts, f_path = None\<rparr>"


lemma py_min_key_mem: "py_min_key key best xs \<in> set (best # xs)"
  by (induction xs arbitrary: best) auto

lemma py_min_key_le_best: "key (py_min_key key best xs) \<le> key best"
proof (induction xs arbitrary: best)
  case Nil
  show ?case by simp
next
  case (Cons y ys)
  let ?b = "if key y < key best then y else best"
  have "key (py_min_key key ?b ys) \<le> key ?b"
    by (rule Cons.IH)
  moreover have "key ?b \<le> key best"
    by auto
  ultimately have "key (py_min_key key ?b ys) \<le> key best"
    by (rule order_trans)
  then show ?case by simp
qed

lemma py_min_key_le: "x \<in> set (best # xs) \<Longrightarrow> key (py_min_key key best xs) \<le> key x"
proof (induction xs arbitrary: best)
  case Nil
  then show ?case by simp
next
  case (Cons y ys)
  let ?b = "if key y < key best then y else best"
  have le_b: "key (py_min_key key ?b ys) \<le> key ?b"
    by (rule py_min_key_le_best)
  have b_best: "key ?b \<le> key best" and b_y: "key ?b \<le> key y"
    by auto
  from Cons.prems consider "x = best" | "x = y" | "x \<in> set ys" by auto
  then have "key (py_min_key key ?b ys) \<le> key x"
  proof cases
    case 1
    with le_b b_best show ?thesis by (blast intro: order_trans)
  next
    case 2
    with le_b b_y show ?thesis by (blast intro: order_trans)
  next
    case 3
    then have "x \<in> set (?b # ys)" by simp
    then show ?thesis by (rule Cons.IH)
  qed
  then show ?case by simp
qed

lemma set_timestamp_window_query:
  "set (timestamp_window_query db video_id t w)
     = {f \<in> set db. in_computed_window video_id t w f}"
  by (auto simp: timestamp_window_query_def in_computed_window_def sql_eq_def sql_ge_def
        sql_le_def split: option.splits)

lemma add_tenth_fifth: "double_add d_tenth d_fifth = d_sum"
  unfolding double_add_def d_tenth_def d_fifth_def d_sum_def
  by (rule round_double_binade [of "- 2"]) (simp_all add: round_half_even_def)

lemma sub_tenth_fifth: "double_sub d_tenth d_fifth = - d_tenth"
  unfolding double_sub_def d_tenth_def d_fifth_def
  by (rule round_double_binade [of "- 4"]) (simp_all add: round_half_even_def)

lemma sub_1: "double_sub 1 (3 / 2) = - (1 / 2)"
  unfolding double_sub_def
  by (rule round_double_binade [of "- 1"]) (simp_all add: round_half_even_def)

lemma add_1: "double_add 1 (3 / 2) = 5 / 2"
  unfolding double_add_def
  by (rule round_double_binade [of "1"]) (simp_all add: round_half_even_def)

lemma sub_tiny: "double_sub d_tiny 1 = - 1"
  unfolding double_sub_def d_tiny_def
  by (rule round_double_binade [of "0"]) (simp_all add: round_half_even_def)

lemma sub_2: "double_sub 2 1 = 1"
  unfolding double_sub_def
  by (rule round_double_binade [of "0"]) (simp_all add: round_half_even_def)


lemma lookup_rounded_window:
  "get_frame_by_timestamp [frame_at 1 d_sum] 1 d_tenth d_fifth = Inr (Some (frame_at 1 d_sum))"
  by (simp add: get_frame_by_timestamp_def timestamp_window_query_def abs_time_difference_def
        sql_eq_def sql_ge_def sql_le_def frame_at_def add_tenth_fifth sub_tenth_fifth)
    (simp add: d_tenth_def d_sum_def)

lemma lookup_tie:
  "get_frame_by_timestamp [frame_at 1 2, frame_at 2 d_tiny] 1 1 (3 / 2)
     = Inr (Some (frame_at 2 d_tiny))"
  by (simp add: get_frame_by_timestamp_def timestamp_window_query_def abs_time_difference_def
        sql_eq_def sql_ge_def sql_le_def frame_at_def add_1 sub_1 sub_tiny sub_2)
    (simp add: d_tiny_def)

text \<open>
  Claim C2, as amended. For every video, target time \<open>t\<close> and tolerance \<open>w\<close> (in
  particular every \<open>w \<ge> 0\<close>), the lookup returns none exactly when no frame of the
  video has its timestamp between the computed bounds \<open>double_sub t w\<close> and
  \<open>double_add t w\<close>; otherwise it returns a frame of that video between these bounds
  whose computed distance \<open>\<bar>double_sub ts t\<bar>\<close> to \<open>t\<close> is minimal among all frames of the
  video between these bounds.
\<close>

theorem get_frame_by_timestamp_nearest:
  "\<exists>r. get_frame_by_timestamp db video_id t w = Inr r \<and>
       (r = None \<longleftrightarrow> \<not> (\<exists>g \<in> set db. in_computed_window video_id t w g)) \<and>
       (\<forall>f. r = Some f \<longrightarrow>
            f \<in> set db \<and> in_computed_window video_id t w f \<and>
            (\<forall>g \<in> set db. in_computed_window video_id t w g
                 \<longrightarrow> computed_distance t f \<le> computed_distance t g))"
proof (cases "timestamp_window_query db video_id t w")
  case Nil
  then have "{f \<in> set db. in_computed_window video_id t w f} = {}"
    using set_timestamp_window_query [of db video_id t w] by simp
  then show ?thesis
    using Nil by (auto simp: get_frame_by_timestamp_def)
next
  case (Cons f fs)
  let ?key = "\<lambda>g. the (abs_time_difference t g)"
  let ?m = "py_min_key ?key f fs"
  have sel: "set (f # fs) = {f \<in> set db. in_computed_window video_id t w f}"
    using set_timestamp_window_query [of db video_id t w] Cons by simp
  have keys: "abs_time_difference t g = Some (computed_distance t g)" if "g \<in> set (f # fs)" for g
    using that sel
    by (auto simp: abs_time_difference_def computed_distance_def in_computed_window_def
          split: option.splits)
  have no_none: "\<not> (\<exists>g \<in> set (f # fs). abs_time_difference t g = None)"
    using keys by auto
  have res: "get_frame_by_timestamp db video_id t w = Inr (Some ?m)"
    using Cons no_none by (simp add: get_frame_by_timestamp_def)
  have mem: "?m \<in> set (f # fs)"
    by (rule py_min_key_mem)
  have least: "computed_distance t ?m \<le> computed_distance t g" if "g \<in> set (f # fs)" for g
  proof -
    have "?key ?m \<le> ?key g"
      using that by (rule py_min_key_le)
    then show ?thesis
      using keys [OF mem] keys [OF that] by simp
  qed
  have nonempty: "\<exists>g \<in> set db. in_computed_window video_id t w g"
    using sel by auto
  show ?thesis
    using res mem least sel nonempty by auto
qed

text \<open>
  The lookup on the two frames at 2 and at \<open>-2 ^ -60\<close>, for the target 1 and the
  tolerance 1.5: both lie between the computed bounds -0.5 and 2.5 and both have the
  computed distance 1.
\<close>

theorem get_frame_by_timestamp_nearest_witness:
  "get_frame_by_timestamp [frame_at 1 2, frame_at 2 d_tiny] 1 1 (3 / 2)
     = Inr (Some (frame_at 2 d_tiny))
   \<and> in_computed_window 1 1 (3 / 2) (frame_at 2 d_tiny)
   \<and> in_computed_window 1 1 (3 / 2) (frame_at 1 2)
   \<and> computed_distance 1 (frame_at 2 d_tiny) \<le> computed_distance 1 (frame_at 1 2)"
  using get_frame_by_timestamp_nearest
    [of "[frame_at 1 2, frame_at 2 d_tiny]" 1 1 "3 / 2"] lookup_tie
  by (simp add: in_computed_window_def computed_distance_def frame_at_def add_1 sub_1 sub_tiny sub_2
        d_tiny_def)


text \<open>
  Claim C2 as stated, with the exact window and the exact distance, fails in double
  arithmetic. For the target 0.1 and the tolerance 0.2 the upper bound is computed
  as 0.30000000000000004, so the frame at that timestamp is returned although it
  lies above \<open>t + w\<close>. For the target 1 and the tolerance 1.5 the frames at \<open>-2 ^ -60\<close>
  and at 2 both have the computed distance 1, and the first in timestamp order is
  returned although the frame at 2 is strictly nearer.
\<close>

theorem get_frame_by_timestamp_rounding:
  "get_frame_by_timestamp [frame_at 1 d_sum] 1 d_tenth d_fifth = Inr (Some (frame_at 1 d_sum))
   \<and> \<not> in_window 1 d_tenth d_fifth (frame_at 1 d_sum)
   \<and> get_frame_by_timestamp [frame_at 1 2, frame_at 2 d_tiny] 1 1 (3 / 2)
       = Inr (Some (frame_at 2 d_tiny))
   \<and> in_window 1 1 (3 / 2) (frame_at 1 2)
   \<and> \<not> time_distance 1 (frame_at 2 d_tiny) \<le> time_distance 1 (frame_at 1 2)"
proof -
  have "\<not> in_window 1 d_tenth d_fifth (frame_at 1 d_sum)"
    by (simp add: in_window_def frame_at_def d_tenth_def d_fifth_def d_sum_def)
  moreover have "in_window 1 1 (3 / 2) (frame_at 1 2)"
    by (simp add: in_window_def frame_at_def)
  moreover have "\<not> time_distance 1 (frame_at 2 d_tiny) \<le> time_distance 1 (frame_at 1 2)"
    by (simp add: time_distance_def frame_at_def d_tiny_def)
  ultimately show ?thesis
    using lookup_rounded_window lookup_tie by simp
qed

section \<open>Embedding service\<close>

text \<open>
  \<open>SimpleEmbeddingService\<close>. The CLIP model, its tokenizer, the tensor operations, the
  database connection, the file system and the standard output are external. They
  enter the model as the fields of \<open>runtime\<close>: each call either succeeds or raises
  the error the field gives. \<open>load_model\<close> is the whole call of \<open>_load_clip_model\<close>,
  \<open>query_error\<close> the error (if any) that a database query raises, \<open>print_error\<close> the
  error (if any) that \<open>print\<close> raises, \<open>mkdir_error\<close> the error (if any) of creating the
  artifact's directory, and \<open>write_outcome\<close> what happens when the artifact is
  written: the write succeeds; or \<open>open(file, 'wb')\<close> raises and the file is as it
  was; or the file is opened, which empties it, and \<open>pickle.dump\<close> raises the first
  error, leaving a partial file whose unpickling raises the second. An embedding vector is a list of reals; similarities are doubles that
  the code only compares. The artifact
  \<open>storage/embeddings/video_<id>/frame_embeddings.pkl\<close> of a video is absent,
  unreadable (opening or unpickling it raises the given error) or holds a list of
  items.
\<close>

type_synonym vec = "real list"

datatype write_result = Written | OpenFailed py_error | DumpFailed py_error py_error

record runtime =
  load_model :: "py_error option"
  encode_image :: "pystr \<Rightarrow> py_error + vec"
  encode_text :: "pystr \<Rightarrow> py_error + vec"
  cosine_similarity :: "vec \<Rightarrow> vec \<Rightarrow> py_error + real"
  query_error :: "py_error option"
  print_error :: "py_error option"
  mkdir_error :: "py_error option"
  write_outcome :: write_result

record emb_item =
  e_frame_id :: int
  e_timestamp :: "real option"
  e_embedding :: vec

datatype artifact = Unreadable py_error | Pickled "emb_item list"

type_synonym embedding_store = "int \<Rightarrow> artifact option"

record scored =
  sc_frame_id :: int
  sc_timestamp :: "real option"
  sc_similarity :: real

record search_result =
  r_frame_id :: int
  r_timestamp :: "real option"
  r_path :: "pystr option"
  r_similarity :: real

text \<open>
  The loop computing one similarity per stored item; the first item whose tensor
  operations raise ends the loop with that error.
\<close>

fun similarities_loop :: "runtime \<Rightarrow> vec \<Rightarrow> emb_item list \<Rightarrow> py_error + scored list" where
  "similarities_loop c tv [] = Inr []"
| "similarities_loop c tv (item # items) =
     (case cosine_similarity c tv (e_embedding item) of
        Inl e \<Rightarrow> Inl e
      | Inr sim \<Rightarrow>
          (case similarities_loop c tv items of
             Inl e \<Rightarrow> Inl e
           | Inr rest \<Rightarrow>
               Inr (\<lparr>sc_frame_id = e_frame_id item, sc_timestamp = e_timestamp item,
                      sc_similarity = sim\<rparr> # rest)))"

text \<open>
  \<open>xs.sort(key=k, reverse=True)\<close>: a stable sort by descending key, which CPython
  performs by reversing the list, sorting it stably in ascending order and reversing
  it again.
\<close>

definition sort_reverse :: "('a \<Rightarrow> 'k::linorder) \<Rightarrow> 'a list \<Rightarrow> 'a list" where
  "sort_reverse key xs = rev (sort_key key (rev xs))"

text \<open>
  The slice \<open>xs[:limit]\<close>: a negative \<open>limit\<close> counts from the end of the list, and a
  bound before the start of the list is clipped to the start.
\<close>

definition slice_to :: "int \<Rightarrow> 'a list \<Rightarrow> 'a list" where
  "slice_to limit xs = take (nat (if limit < 0 then int (length xs) + limit else limit)) xs"

text \<open>
  The loop resolving each surviving id with
  \<open>db.query(Frame).filter(Frame.id == id).first()\<close>: the query raises when the
  database fails, and an id without a row is skipped.
\<close>

definition query_frame :: "runtime \<Rightarrow> frame list \<Rightarrow> int \<Rightarrow> py_error + frame option" where
  "query_frame c db frame_id =
     (case query_error c of
        Some e \<Rightarrow> Inl e
      | None \<Rightarrow> Inr (find (\<lambda>f. f_id f = frame_id) db))"

fun detailed_results ::
  "runtime \<Rightarrow> frame list \<Rightarrow> scored list \<Rightarrow> py_error + search_result list" where
  "detailed_results c db [] = Inr []"
| "detailed_results c db (result # results) =
     (case query_frame c db (sc_frame_id result) of
        Inl e \<Rightarrow> Inl e
      | Inr None \<Rightarrow> detailed_results c db results
      | Inr (Some frame) \<Rightarrow>
          (case detailed_results c db results of
             Inl e \<Rightarrow> Inl e
           | Inr rest \<Rightarrow>
               Inr (\<lparr>r_frame_id = f_id frame, r_timestamp = f_timestamp frame,
                      r_path = f_path frame, r_similarity = sc_similarity result\<rparr> # rest)))"

text \<open>The body of the \<open>try\<close> block of \<open>search_visual_content\<close>.\<close>

definition search_body ::
  "runtime \<Rightarrow> embedding_store \<Rightarrow> frame list \<Rightarrow> int \<Rightarrow> pystr \<Rightarrow> int
     \<Rightarrow> py_error + search_result list" where
  "search_body c store db video_id query limit =
     (case load_model c of
        Some e \<Rightarrow> Inl e
      | None \<Rightarrow>
          (case store video_id of
             None \<Rightarrow> Inr []
           | Some (Unreadable e) \<Rightarrow> Inl e
           | Some (Pickled embeddings_data) \<Rightarrow>
               if embeddings_data = [] then Inr []
               else case encode_text c query of
                 Inl e \<Rightarrow> Inl e
               | Inr text_embedding \<Rightarrow>
                   (case similarities_loop c text_embedding embeddings_data of
                      Inl e \<Rightarrow> Inl e
                    | Inr similarities \<Rightarrow>
                        detailed_results c db
                          (slice_to limit (sort_reverse sc_similarity similarities)))))"

text \<open>
  The handler \<open>except Exception as e\<close>: an error that is not an \<open>Exception\<close> passes
  through; otherwise the handler prints the error and returns \<open>[]\<close>, and an error of
  that \<open>print\<close> leaves the function.
\<close>

definition search_visual_content ::
  "runtime \<Rightarrow> embedding_store \<Rightarrow> frame list \<Rightarrow> int \<Rightarrow> pystr \<Rightarrow> int
     \<Rightarrow> py_error + search_result list" where
  "search_visual_content c store db video_id query limit =
     (case search_body c store db video_id query limit of
        Inr results \<Rightarrow> Inr results
      | Inl e \<Rightarrow>
          if is_Exception e
          then (case print_error c of None \<Rightarrow> Inr [] | Some print_e \<Rightarrow> Inl print_e)
          else Inl e)"

subsection \<open>Sample data\<close>

text \<open>
  A runtime whose image encoder knows three images, whose text encoder rejects the
  empty query, and whose similarity is the inner product of two vectors of the same
  length; three frames of video 1; and a store with a readable artifact for video 1,
  an artifact for video 2 whose unpickling raises \<open>UnpicklingError\<close>, an artifact
  for video 3 whose unpickling raises \<open>SystemExit\<close>, an artifact for video 4 with two
  items of the same embedding, and no artifact for any other video.
\<close>

definition demo_runtime :: runtime where
  "demo_runtime =
     \<lparr>load_model = None,
      encode_image = (\<lambda>p. if p = py ''a.jpg'' then Inr [1, 0]
                           else if p = py ''b.jpg'' then Inr [0, 1]
                           else if p = py ''c.jpg'' then Inr [3 / 4, 1 / 2]
                           else Inl (Exception (py ''cannot identify image file''))),
      encode_text = (\<lambda>q. if q = [] then Inl (ValueError (py ''empty query'')) else Inr [0, 1]),
      cosine_similarity = (\<lambda>a b. if length a = length b
                                  then Inr (sum_list (map2 (\<lambda>x y. x * y) a b))
                                  else Inl (Exception (py ''shape mismatch''))),
      query_error = None,
      print_error = None,
      mkdir_error = None,
      write_outcome = Written\<rparr>"

definition demo_frames :: "frame list" where
  "demo_frames =
     [\<lparr>f_id = 1, f_video_id = Some 1, f_timestamp = Some 0, f_path = Some (py ''a.jpg'')\<rparr>,
      \<lparr>f_id = 2, f_video_id = Some 1, f_timestamp = Some 10, f_path = Some (py ''b.jpg'')\<rparr>,
      \<lparr>f_id = 3, f_video_id = Some 1, f_timestamp = Some 20, f_path = Some (py ''c.jpg'')\<rparr>]"

definition demo_store :: embedding_store where
  "demo_store =
     (\<lambda>v. if v = 1 then
            Some (Pickled [\<lparr>e_frame_id = 1, e_timestamp = Some 0, e_embedding = [1, 0]\<rparr>,
                           \<lparr>e_frame_id = 2, e_timestamp = Some 10, e_embedding = [0, 1]\<rparr>,
                           \<lparr>e_frame_id = 3, e_timestamp = Some 20, e_embedding = [3 / 4, 1 / 2]\<rparr>])
          else if v = 2 then Some (Unreadable (Exception (py ''pickle data was truncated'')))
          else if v = 3 then Some (Unreadable SystemExit)
          else if v = 4 then
            Some (Pickled [\<lparr>e_frame_id = 2, e_timestamp = Some 10, e_embedding = [0, 1]\<rparr>,
                           \<lparr>e_frame_id = 3, e_timestamp = Some 20, e_embedding = [0, 1]\<rparr>])
          else None)"

text \<open>
  The same runtime when the model cannot be loaded (the download of its weights
  fails), when the load is interrupted from the keyboard, and when the standard
  output is a closed pipe.
\<close>

definition offline_runtime :: runtime where
  "offline_runtime = demo_runtime\<lparr>load_model := Some (Exception (py ''connection refused''))\<rparr>"

definition interrupted_runtime :: runtime where
  "interrupted_runtime = demo_runtime\<lparr>load_model := Some KeyboardInterrupt\<rparr>"

definition closed_pipe_runtime :: runtime where
  "closed_pipe_runtime = demo_runtime\<lparr>print_error := Some (Exception (py ''Broken pipe''))\<rparr>"

subsection \<open>Ranking and truncation of the search results\<close>

lemma find_holds: "find P xs = Some x \<Longrightarrow> P x"
  by (induction xs) (auto split: if_splits)

lemma sort_reverse_descending: "sorted_wrt (\<lambda>x y. y \<le> x) (map key (sort_reverse key xs))"
proof -
  have "sorted (map key (sort_key key (rev xs)))"
    by (rule sorted_sort_key)
  then have "sorted_wrt (\<lambda>x y. y \<le> x) (rev (map key (sort_key key (rev xs))))"
    by (simp add: sorted_wrt_rev)
  then show ?thesis
    by (simp add: sort_reverse_def rev_map)
qed

lemma slice_to_descending:
  "sorted_wrt (\<lambda>x y. y \<le> x) (map key xs) \<Longrightarrow> sorted_wrt (\<lambda>x y. y \<le> x) (map key (slice_to limit xs))"
  by (simp add: slice_to_def take_map [symmetric] sorted_wrt_take)

lemma length_slice_to: "0 \<le> limit \<Longrightarrow> int (length (slice_to limit xs)) \<le> limit"
  by (simp add: slice_to_def)

lemma set_sort_reverse: "set (sort_reverse key xs) = set xs"
  by (simp add: sort_reverse_def)

lemma set_slice_to: "set (slice_to limit xs) \<subseteq> set xs"
  by (simp add: slice_to_def set_take_subset)

lemma detailed_results_Cons:
  assumes "detailed_results c db (r # rs) = Inr res"
  shows "(find (\<lambda>f. f_id f = sc_frame_id r) db = None \<and> detailed_results c db rs = Inr res)
         \<or> (\<exists>frame rest. find (\<lambda>f. f_id f = sc_frame_id r) db = Some frame
               \<and> detailed_results c db rs = Inr rest
               \<and> res = \<lparr>r_frame_id = f_id frame, r_timestamp = f_timestamp frame,
                        r_path = f_path frame, r_similarity = sc_similarity r\<rparr> # rest)"
  using assms by (simp add: query_frame_def split: option.splits sum.splits)

lemma detailed_results_Inr:
  "detailed_results c db rs = Inr res \<Longrightarrow>
     length res \<le> length rs
     \<and> set (map r_similarity res) \<subseteq> set (map sc_similarity rs)
     \<and> set (map r_frame_id res) \<subseteq> set (map sc_frame_id rs)
     \<and> (sorted_wrt (\<lambda>x y. y \<le> x) (map sc_similarity rs)
          \<longrightarrow> sorted_wrt (\<lambda>x y. y \<le> x) (map r_similarity res))"
proof (induction rs arbitrary: res)
  case Nil
  then show ?case by simp
next
  case (Cons r rs)
  from detailed_results_Cons [OF Cons.prems] show ?case
  proof (elim disjE conjE exE)
    assume "detailed_results c db rs = Inr res"
    from Cons.IH [OF this] show ?thesis
      by auto
  next
    fix frame rest
    assume found: "find (\<lambda>f. f_id f = sc_frame_id r) db = Some frame"
      and tail: "detailed_results c db rs = Inr rest"
      and res: "res = \<lparr>r_frame_id = f_id frame, r_timestamp = f_timestamp frame,
                        r_path = f_path frame, r_similarity = sc_similarity r\<rparr> # rest"
    have id: "f_id frame = sc_frame_id r"
      using find_holds [OF found] .
    from Cons.IH [OF tail] show ?thesis
      unfolding res using id by auto
  qed
qed

lemma similarities_loop_ids:
  "similarities_loop c tv items = Inr scs \<Longrightarrow> map sc_frame_id scs = map e_frame_id items"
  by (induction items arbitrary: scs) (auto split: sum.splits)

lemma search_body_Inr:
  assumes "search_body c store db video_id query limit = Inr results"
  shows "results = []
         \<or> (\<exists>items tv scs. store video_id = Some (Pickled items)
               \<and> similarities_loop c tv items = Inr scs
               \<and> detailed_results c db (slice_to limit (sort_reverse sc_similarity scs))
                   = Inr results)"
  using assms
  by (simp add: search_body_def split: option.splits artifact.splits sum.splits if_splits) blast

lemma search_visual_content_Inr:
  assumes "search_visual_content c store db video_id query limit = Inr results"
  shows "results = [] \<or> search_body c store db video_id query limit = Inr results"
  using assms
  by (simp add: search_visual_content_def split: sum.splits option.splits if_splits)

lemma search_body_ranked:
  assumes "search_body c store db video_id query limit = Inr results"
  shows "sorted_wrt (\<lambda>x y. y \<le> x) (map r_similarity results)
         \<and> (0 \<le> limit \<longrightarrow> int (length results) \<le> limit)"
  using search_body_Inr [OF assms]
proof (elim disjE exE conjE)
  assume "results = []"
  then show ?thesis by simp
next
  fix items tv scs
  assume detailed: "detailed_results c db (slice_to limit (sort_reverse sc_similarity scs))
                      = Inr results"
  note facts = detailed_results_Inr [OF detailed]
  have ranked: "sorted_wrt (\<lambda>x y. y \<le> x)
                  (map sc_similarity (slice_to limit (sort_reverse sc_similarity scs)))"
    by (rule slice_to_descending) (rule sort_reverse_descending)
  have sorted: "sorted_wrt (\<lambda>x y. y \<le> x) (map r_similarity results)"
    using facts ranked by blast
  have "0 \<le> limit \<longrightarrow> int (length results) \<le> limit"
  proof
    assume "0 \<le> limit"
    from length_slice_to [OF this, of "sort_reverse sc_similarity scs"] facts
    show "int (length results) \<le> limit"
      by linarith
  qed
  with sorted show ?thesis by simp
qed

lemma search_body_absent:
  "store video_id = None \<Longrightarrow>
     search_body c store db video_id query limit
       = (case load_model c of None \<Rightarrow> Inr [] | Some e \<Rightarrow> Inl e)"
  by (simp add: search_body_def split: option.splits)

text \<open>
  Claim C1, as amended. Whenever \<open>search_visual_content\<close> returns a list, the
  similarities of its results are in non-increasing order and, if \<open>limit\<close> is not
  negative, there are at most \<open>limit\<close> results. Whenever the video has no embedding
  artifact, it returns the empty list, provided that the model loads or that loading
  it raises an \<open>Exception\<close> and the \<open>print\<close> of the handler succeeds.
\<close>

theorem search_visual_content_ranked:
  "(search_visual_content c store db video_id query limit = Inr results \<longrightarrow>
      sorted_wrt (\<lambda>x y. y \<le> x) (map r_similarity results)
      \<and> (0 \<le> limit \<longrightarrow> int (length results) \<le> limit))
   \<and> (store video_id = None
        \<and> (case load_model c of None \<Rightarrow> True | Some e \<Rightarrow> is_Exception e \<and> print_error c = None)
      \<longrightarrow> search_visual_content c store db video_id query limit = Inr [])"
proof -
  have ranked: "search_visual_content c store db video_id query limit = Inr results \<longrightarrow>
      sorted_wrt (\<lambda>x y. y \<le> x) (map r_similarity results)
      \<and> (0 \<le> limit \<longrightarrow> int (length results) \<le> limit)"
  proof
    assume returned: "search_visual_content c store db video_id query limit = Inr results"
    from search_visual_content_Inr [OF returned]
    show "sorted_wrt (\<lambda>x y. y \<le> x) (map r_similarity results)
          \<and> (0 \<le> limit \<longrightarrow> int (length results) \<le> limit)"
    proof
      assume "results = []"
      then show ?thesis by simp
    next
      assume "search_body c store db video_id query limit = Inr results"
      then show ?thesis by (rule search_body_ranked)
    qed
  qed
  have absent: "store video_id = None
        \<and> (case load_model c of None \<Rightarrow> True | Some e \<Rightarrow> is_Exception e \<and> print_error c = None)
      \<longrightarrow> search_visual_content c store db video_id query limit = Inr []"
    by (simp add: search_visual_content_def search_body_absent split: option.splits)
  from ranked absent show ?thesis
    by (rule conjI)
qed

text \<open>
  The theorem at work. The query \<open>sky\<close> with limit 2 on video 1 returns the frames 2
  and 3, of similarities 1 and 1/2; video 7 has no artifact and the search returns
  the empty list, also when the model cannot be loaded.
\<close>

theorem search_visual_content_ranked_witness:
  "search_visual_content demo_runtime demo_store demo_frames 1 (py ''sky'') 2 =
       Inr [\<lparr>r_frame_id = 2, r_timestamp = Some 10, r_path = Some (py ''b.jpg''), r_similarity = 1\<rparr>,
            \<lparr>r_frame_id = 3, r_timestamp = Some 20, r_path = Some (py ''c.jpg''), r_similarity = 1 / 2\<rparr>]
   \<and> sorted_wrt (\<lambda>x y. y \<le> x) (map r_similarity
       [\<lparr>r_frame_id = 2, r_timestamp = Some 10, r_path = Some (py ''b.jpg''), r_similarity = 1\<rparr>,
        \<lparr>r_frame_id = 3, r_timestamp = Some 20, r_path = Some (py ''c.jpg''), r_similarity = 1 / 2\<rparr>])
   \<and> 0 \<le> (2::int)
   \<and> int (length
       [\<lparr>r_frame_id = 2, r_timestamp = Some 10, r_path = Some (py ''b.jpg''), r_similarity = 1\<rparr>,
        \<lparr>r_frame_id = 3, r_timestamp = Some 20, r_path = Some (py ''c.jpg''), r_similarity = 1 / 2::real\<rparr>]) \<le> 2
   \<and> demo_store 7 = None
   \<and> load_model demo_runtime = None
   \<and> search_visual_content demo_runtime demo_store demo_frames 7 (py ''sky'') 2 = Inr []
   \<and> load_model offline_runtime = Some (Exception (py ''connection refused''))
   \<and> is_Exception (Exception (py ''connection refused''))
   \<and> print_error offline_runtime = None
   \<and> search_visual_content offline_runtime demo_store demo_frames 7 (py ''sky'') 2 = Inr []"
  using search_visual_content_ranked [of demo_runtime demo_store demo_frames 1 "py ''sky''" 2
      "[\<lparr>r_frame_id = 2, r_timestamp = Some 10, r_path = Some (py ''b.jpg''), r_similarity = 1\<rparr>,
        \<lparr>r_frame_id = 3, r_timestamp = Some 20, r_path = Some (py ''c.jpg''), r_similarity = 1 / 2\<rparr>]"]
    search_visual_content_ranked [of demo_runtime demo_store demo_frames 7 "py ''sky''" 2 "[]"]
    search_visual_content_ranked [of offline_runtime demo_store demo_frames 7 "py ''sky''" 2 "[]"]
  by (simp add: search_visual_content_def search_body_def query_frame_def demo_runtime_def
        offline_runtime_def demo_store_def demo_frames_def sort_reverse_def slice_to_def py_def)

text \<open>
  Claim C1 as stated fails in four ways. The two items of the artifact of video 4
  have the same similarity to the query, so the results are not in strictly
  descending order. With \<open>limit = -1\<close> the search on video 1 returns two results,
  more than \<open>limit\<close>. Video 7 has no artifact: when the load of the model is
  interrupted the interrupt leaves the function, and when the model cannot be loaded
  and the standard output is closed, the error of the \<open>print\<close> of the handler leaves
  the function.
\<close>

theorem search_visual_content_not_as_stated:
  "search_visual_content demo_runtime demo_store demo_frames 4 (py ''sky'') 5 =
       Inr [\<lparr>r_frame_id = 2, r_timestamp = Some 10, r_path = Some (py ''b.jpg''), r_similarity = 1\<rparr>,
            \<lparr>r_frame_id = 3, r_timestamp = Some 20, r_path = Some (py ''c.jpg''), r_similarity = 1\<rparr>]
   \<and> search_visual_content demo_runtime demo_store demo_frames 1 (py ''sky'') (- 1) =
       Inr [\<lparr>r_frame_id = 2, r_timestamp = Some 10, r_path = Some (py ''b.jpg''), r_similarity = 1\<rparr>,
            \<lparr>r_frame_id = 3, r_timestamp = Some 20, r_path = Some (py ''c.jpg''), r_similarity = 1 / 2\<rparr>]
   \<and> demo_store 7 = None
   \<and> search_visual_content interrupted_runtime demo_store demo_frames 7 (py ''sky'') 5 =
       Inl KeyboardInterrupt
   \<and> search_visual_content (offline_runtime\<lparr>print_error := Some (Exception (py ''Broken pipe''))\<rparr>)
         demo_store demo_frames 7 (py ''sky'') 5 =
       Inl (Exception (py ''Broken pipe''))"
  by (simp add: search_visual_content_def search_body_def query_frame_def demo_runtime_def
        offline_runtime_def interrupted_runtime_def demo_store_def demo_frames_def
        sort_reverse_def slice_to_def py_def)

subsection \<open>Errors of a search\<close>

lemma similarities_loop_Inl:
  "similarities_loop c tv items = Inl e \<Longrightarrow> \<exists>v. cosine_similarity c tv v = Inl e"
  by (induction items) (auto split: sum.splits)

lemma detailed_results_Inl:
  "detailed_results c db rs = Inl e \<Longrightarrow> query_error c = Some e"
  by (induction rs) (auto simp: query_frame_def split: sum.splits option.splits)

lemma search_body_Inl:
  assumes "search_body c store db video_id query limit = Inl e"
  shows "load_model c = Some e
         \<or> store video_id = Some (Unreadable e)
         \<or> encode_text c query = Inl e
         \<or> (\<exists>v w. cosine_similarity c v w = Inl e)
         \<or> query_error c = Some e"
proof (cases "load_model c")
  case (Some e')
  then show ?thesis
    using assms by (simp add: search_body_def)
next
  case None
  note loaded = None
  show ?thesis
  proof (cases "store video_id")
    case None
    then show ?thesis
      using assms loaded by (simp add: search_body_def)
  next
    case (Some a)
    note present = Some
    show ?thesis
    proof (cases a)
      case (Unreadable e')
      then show ?thesis
        using assms loaded present by (simp add: search_body_def)
    next
      case (Pickled items)
      note pickled = Pickled
      show ?thesis
      proof (cases "encode_text c query")
        case (Inl e')
        then show ?thesis
          using assms loaded present pickled by (simp add: search_body_def split: if_splits)
      next
        case (Inr tv)
        note encoded = Inr
        show ?thesis
        proof (cases "similarities_loop c tv items")
          case (Inl e')
          then have "e' = e"
            using assms loaded present pickled encoded
            by (simp add: search_body_def split: if_splits)
          with Inl similarities_loop_Inl [of c tv items e] show ?thesis
            by blast
        next
          case (Inr scs)
          then have "detailed_results c db (slice_to limit (sort_reverse sc_similarity scs)) = Inl e"
            using assms loaded present pickled encoded
            by (simp add: search_body_def split: if_splits)
          from detailed_results_Inl [OF this] show ?thesis
            by simp
        qed
      qed
    qed
  qed
qed

text \<open>
  Claim C9, as amended. Suppose that every error raised by the load of the model, by
  the reading of the artifact, by the encoding of the query, by the computation of a
  similarity and by a database query is an \<open>Exception\<close>, and that the \<open>print\<close> of the
  handler succeeds. Then \<open>search_visual_content\<close> returns a list; and whenever the
  body of its \<open>try\<close> block raises an error, it returns the empty list, which is also
  what it returns for the same video without its artifact.
\<close>

theorem search_visual_content_never_raises:
  assumes "case load_model c of None \<Rightarrow> True | Some e \<Rightarrow> is_Exception e"
    and "case store video_id of Some (Unreadable e) \<Rightarrow> is_Exception e | _ \<Rightarrow> True"
    and "case encode_text c query of Inl e \<Rightarrow> is_Exception e | Inr tv \<Rightarrow> True"
    and "\<forall>v w. case cosine_similarity c v w of Inl e \<Rightarrow> is_Exception e | Inr s \<Rightarrow> True"
    and "case query_error c of None \<Rightarrow> True | Some e \<Rightarrow> is_Exception e"
    and "print_error c = None"
  shows "(\<exists>results. search_visual_content c store db video_id query limit = Inr results)
         \<and> ((\<exists>e. search_body c store db video_id query limit = Inl e) \<longrightarrow>
              search_visual_content c store db video_id query limit = Inr []
              \<and> search_visual_content c (store(video_id := None)) db video_id query limit = Inr [])"
proof -
  have caught: "is_Exception e" if "search_body c store db video_id query limit = Inl e" for e
    using search_body_Inl [OF that]
  proof (elim disjE exE)
    assume "load_model c = Some e"
    with assms(1) show ?thesis by simp
  next
    assume "store video_id = Some (Unreadable e)"
    with assms(2) show ?thesis by simp
  next
    assume "encode_text c query = Inl e"
    with assms(3) show ?thesis by simp
  next
    fix v w
    assume "cosine_similarity c v w = Inl e"
    moreover from assms(4)
    have "case cosine_similarity c v w of Inl e \<Rightarrow> is_Exception e | Inr s \<Rightarrow> True"
      by blast
    ultimately show ?thesis by simp
  next
    assume "query_error c = Some e"
    with assms(5) show ?thesis by simp
  qed
  have handled: "search_visual_content c store db video_id query limit = Inr []"
    if "search_body c store db video_id query limit = Inl e" for e
    using that caught [OF that] assms(6) by (simp add: search_visual_content_def)
  have returns: "\<exists>results. search_visual_content c store db video_id query limit = Inr results"
  proof (cases "search_body c store db video_id query limit")
    case (Inl e)
    from handled [OF this] show ?thesis by blast
  next
    case (Inr results)
    then show ?thesis by (simp add: search_visual_content_def)
  qed
  have absent: "search_visual_content c (store(video_id := None)) db video_id query limit = Inr []"
    using assms(1) assms(6)
    by (auto simp: search_visual_content_def search_body_absent split: option.splits)
  from returns handled absent show ?thesis
    by blast
qed

text \<open>
  The theorem at work, with a runtime and a store that meet its hypotheses. The
  artifact of video 2 cannot be unpickled, and the empty query on video 1 is rejected
  by the tokenizer: the body of the \<open>try\<close> block raises and the search returns the
  empty list, as it does for video 7, which has no artifact.
\<close>

theorem search_visual_content_never_raises_witness:
  "load_model demo_runtime = None
   \<and> demo_store 2 = Some (Unreadable (Exception (py ''pickle data was truncated'')))
   \<and> is_Exception (Exception (py ''pickle data was truncated''))
   \<and> encode_text demo_runtime [] = Inl (ValueError (py ''empty query''))
   \<and> is_Exception (ValueError (py ''empty query''))
   \<and> (\<forall>v w. case cosine_similarity demo_runtime v w of Inl e \<Rightarrow> is_Exception e | Inr s \<Rightarrow> True)
   \<and> query_error demo_runtime = None
   \<and> print_error demo_runtime = None
   \<and> search_body demo_runtime demo_store demo_frames 2 (py ''sky'') 5
       = Inl (Exception (py ''pickle data was truncated''))
   \<and> search_visual_content demo_runtime demo_store demo_frames 2 (py ''sky'') 5 = Inr []
   \<and> search_body demo_runtime demo_store demo_frames 1 [] 5 = Inl (ValueError (py ''empty query''))
   \<and> search_visual_content demo_runtime demo_store demo_frames 1 [] 5 = Inr []
   \<and> demo_store 7 = None
   \<and> search_visual_content demo_runtime demo_store demo_frames 7 (py ''sky'') 5 = Inr []"
  using search_visual_content_never_raises
      [of demo_runtime demo_store 2 "py ''sky''" demo_frames 5]
    search_visual_content_never_raises [of demo_runtime demo_store 1 "[]" demo_frames 5]
    search_visual_content_never_raises [of demo_runtime demo_store 7 "py ''sky''" demo_frames 5]
  by (simp add: search_visual_content_def search_body_def query_frame_def demo_runtime_def
        demo_store_def demo_frames_def py_def)

text \<open>
  Claim C9 as stated fails. \<open>except Exception\<close> does not catch \<open>SystemExit\<close>: the
  artifact of video 3 raises it when unpickled, and the search raises it. And an
  error caught by the handler is printed first: with the standard output closed, the
  search on the unreadable artifact of video 2 raises the error of that \<open>print\<close>.
\<close>

theorem search_visual_content_raises:
  "demo_store 3 = Some (Unreadable SystemExit)
   \<and> search_visual_content demo_runtime demo_store demo_frames 3 (py ''sky'') 5 = Inl SystemExit
   \<and> demo_store 2 = Some (Unreadable (Exception (py ''pickle data was truncated'')))
   \<and> print_error closed_pipe_runtime = Some (Exception (py ''Broken pipe''))
   \<and> search_visual_content closed_pipe_runtime demo_store demo_frames 2 (py ''sky'') 5
       = Inl (Exception (py ''Broken pipe''))"
  by (simp add: search_visual_content_def search_body_def demo_runtime_def
        closed_pipe_runtime_def demo_store_def py_def)

subsection \<open>Generating the embeddings of a video\<close>

text \<open>
  \<open>str(n)\<close> for an integer: its decimal digits, with a minus sign when negative.
\<close>

fun decimal :: "nat \<Rightarrow> pystr" where
  "decimal n = (if n < 10 then [48 + n] else decimal (n div 10) @ [48 + n mod 10])"

declare decimal.simps [simp del]

definition str_int :: "int \<Rightarrow> pystr" where
  "str_int i = (if i < 0 then 45 # decimal (nat (- i)) else decimal (nat i))"

lemma decimal_digit: "n < 10 \<Longrightarrow> decimal n = [48 + n]"
  by (subst decimal.simps) simp

definition embeddings_file_path :: "int \<Rightarrow> pystr" where
  "embeddings_file_path video_id =
     py ''storage/embeddings/video_'' @ str_int video_id @ py ''/frame_embeddings.pkl''"

text \<open>
  The body of the inner \<open>try\<close> block, for one frame. \<open>files\<close> is the set of paths that
  exist. \<open>os.path.exists\<close> raises \<open>TypeError\<close> on a path that is \<open>None\<close>; a frame whose
  image does not exist is reported with \<open>print\<close> and skipped; opening, preprocessing
  and encoding the image is the call \<open>encode_image\<close> of the runtime.
\<close>

definition frame_body :: "runtime \<Rightarrow> pystr set \<Rightarrow> frame \<Rightarrow> py_error + emb_item option" where
  "frame_body c files frame =
     (case f_path frame of
        None \<Rightarrow> Inl TypeError
      | Some path \<Rightarrow>
          if path \<notin> files
          then (case print_error c of None \<Rightarrow> Inr None | Some print_e \<Rightarrow> Inl print_e)
          else case encode_image c path of
            Inl e \<Rightarrow> Inl e
          | Inr embedding \<Rightarrow>
              Inr (Some \<lparr>e_frame_id = f_id frame, e_timestamp = f_timestamp frame,
                          e_embedding = embedding\<rparr>))"

text \<open>
  One turn of the loop: the inner \<open>except Exception\<close> prints the error and goes on to
  the next frame; an error that is not an \<open>Exception\<close>, and an error of that \<open>print\<close>,
  leave the loop.
\<close>

definition embed_frame :: "runtime \<Rightarrow> pystr set \<Rightarrow> frame \<Rightarrow> py_error + emb_item option" where
  "embed_frame c files frame =
     (case frame_body c files frame of
        Inr item \<Rightarrow> Inr item
      | Inl e \<Rightarrow>
          if is_Exception e
          then (case print_error c of None \<Rightarrow> Inr None | Some print_e \<Rightarrow> Inl print_e)
          else Inl e)"

fun embed_frames :: "runtime \<Rightarrow> pystr set \<Rightarrow> frame list \<Rightarrow> py_error + emb_item list" where
  "embed_frames c files [] = Inr []"
| "embed_frames c files (frame # frames) =
     (case embed_frame c files frame of
        Inl e \<Rightarrow> Inl e
      | Inr None \<Rightarrow> embed_frames c files frames
      | Inr (Some item) \<Rightarrow>
          (case embed_frames c files frames of
             Inl e \<Rightarrow> Inl e
           | Inr items \<Rightarrow> Inr (item # items)))"

datatype embed_report =
    NoFramesFound
  | GenerationError py_error
  | Generated (processed: nat) (total_frames: nat) (embeddings_file: "pystr option")

text \<open>
  \<open>with open(embeddings_file, 'wb') as f: pickle.dump(embeddings, f)\<close>: the error
  raised, if any, and the store left behind.
\<close>

definition write_artifact ::
  "runtime \<Rightarrow> embedding_store \<Rightarrow> int \<Rightarrow> emb_item list \<Rightarrow> py_error option \<times> embedding_store" where
  "write_artifact c store video_id embeddings =
     (case write_outcome c of
        Written \<Rightarrow> (None, store(video_id := Some (Pickled embeddings)))
      | OpenFailed e \<Rightarrow> (Some e, store)
      | DumpFailed e partial \<Rightarrow> (Some e, store(video_id := Some (Unreadable partial))))"

text \<open>
  The body of the outer \<open>try\<close> block: what it returns or raises, and the store it
  leaves behind. The store is indexed by video, so the directory of the artifact is
  not a part of it. The artifact is written only under \<open>if embeddings:\<close>.
\<close>

definition generate_body ::
  "runtime \<Rightarrow> pystr set \<Rightarrow> frame list \<Rightarrow> embedding_store \<Rightarrow> int
     \<Rightarrow> (py_error + embed_report) \<times> embedding_store" where
  "generate_body c files db store video_id =
     (case load_model c of
        Some e \<Rightarrow> (Inl e, store)
      | None \<Rightarrow>
          (case query_error c of
             Some e \<Rightarrow> (Inl e, store)
           | None \<Rightarrow>
               let frames = filter (\<lambda>f. sql_eq (f_video_id f) video_id) db in
               if frames = [] then (Inr NoFramesFound, store)
               else case mkdir_error c of
                 Some e \<Rightarrow> (Inl e, store)
               | None \<Rightarrow>
                   (case embed_frames c files frames of
                      Inl e \<Rightarrow> (Inl e, store)
                    | Inr embeddings \<Rightarrow>
                        if embeddings \<noteq> [] then
                          (case write_artifact c store video_id embeddings of
                             (Some e, written) \<Rightarrow> (Inl e, written)
                           | (None, written) \<Rightarrow>
                               (case print_error c of
                                  Some print_e \<Rightarrow> (Inl print_e, written)
                                | None \<Rightarrow>
                                    (Inr (Generated (length embeddings) (length frames)
                                            (Some (embeddings_file_path video_id))),
                                     written)))
                        else (Inr (Generated (length embeddings) (length frames) None),
                              store))))"

text \<open>
  The whole function: the outer \<open>except Exception\<close> prints the error and returns the
  error report.
\<close>

definition generate_frame_embeddings ::
  "runtime \<Rightarrow> pystr set \<Rightarrow> frame list \<Rightarrow> embedding_store \<Rightarrow> int
     \<Rightarrow> (py_error + embed_report) \<times> embedding_store" where
  "generate_frame_embeddings c files db store video_id =
     (case generate_body c files db store video_id of
        (Inr report, store') \<Rightarrow> (Inr report, store')
      | (Inl e, store') \<Rightarrow>
          if is_Exception e
          then (case print_error c of
                  None \<Rightarrow> (Inr (GenerationError e), store')
                | Some print_e \<Rightarrow> (Inl print_e, store'))
          else (Inl e, store'))"

text \<open>The same runtime on a full disk: the artifact is opened and cannot be written.\<close>

definition full_disk_runtime :: runtime where
  "full_disk_runtime =
     demo_runtime\<lparr>write_outcome := DumpFailed (Exception (py ''No space left on device''))
                                      (Exception (py ''Ran out of input''))\<rparr>"

lemma embed_frame_Some:
  assumes "embed_frame c files frame = Inr (Some item)"
  shows "e_frame_id item = f_id frame \<and> e_timestamp item = f_timestamp frame
         \<and> (\<exists>path. f_path frame = Some path \<and> path \<in> files
               \<and> encode_image c path = Inr (e_embedding item))"
proof -
  have body: "frame_body c files frame = Inr (Some item)"
    using assms by (simp add: embed_frame_def split: sum.splits if_splits option.splits)
  then show ?thesis
    by (auto simp: frame_body_def split: option.splits if_splits sum.splits)
qed

lemma embed_frames_items:
  "embed_frames c files frames = Inr embeddings \<Longrightarrow>
     \<forall>item \<in> set embeddings. \<exists>frame \<in> set frames.
        e_frame_id item = f_id frame \<and> e_timestamp item = f_timestamp frame
        \<and> (\<exists>path. f_path frame = Some path \<and> path \<in> files
              \<and> encode_image c path = Inr (e_embedding item))"
proof (induction frames arbitrary: embeddings)
  case Nil
  then show ?case by simp
next
  case (Cons frame frames)
  show ?case
  proof (cases "embed_frame c files frame")
    case (Inl e)
    then show ?thesis
      using Cons.prems by simp
  next
    case (Inr r)
    note turn = Inr
    show ?thesis
    proof (cases r)
      case None
      then have "embed_frames c files frames = Inr embeddings"
        using Cons.prems turn by simp
      from Cons.IH [OF this] show ?thesis
        by auto
    next
      case (Some item)
      then obtain items where rest: "embed_frames c files frames = Inr items"
        and all: "embeddings = item # items"
        using Cons.prems turn by (auto split: sum.splits)
      have first: "embed_frame c files frame = Inr (Some item)"
        using turn Some by simp
      from embed_frame_Some [OF first] Cons.IH [OF rest] show ?thesis
        unfolding all by auto
    qed
  qed
qed

lemma generate_frame_embeddings_Generated:
  assumes "generate_frame_embeddings c files db store video_id = (Inr (Generated n m file), store')"
  shows "generate_body c files db store video_id = (Inr (Generated n m file), store')"
  using assms
  by (simp add: generate_frame_embeddings_def
        split: prod.splits sum.splits if_splits option.splits)

lemma write_artifact_None:
  "write_artifact c store video_id embeddings = (None, written) \<Longrightarrow>
     written = store(video_id := Some (Pickled embeddings))"
  by (auto simp: write_artifact_def split: write_result.splits)

lemma generate_body_Generated:
  assumes "generate_body c files db store video_id = (Inr (Generated n m (Some file)), store')"
  shows "\<exists>embeddings.
           embed_frames c files (filter (\<lambda>f. sql_eq (f_video_id f) video_id) db) = Inr embeddings
           \<and> embeddings \<noteq> [] \<and> length embeddings = n
           \<and> store' = store(video_id := Some (Pickled embeddings))"
proof (cases "embed_frames c files (filter (\<lambda>f. sql_eq (f_video_id f) video_id) db)")
  case (Inl e)
  then show ?thesis
    using assms
    by (simp add: generate_body_def Let_def split: option.splits if_splits)
next
  case (Inr embeddings)
  note embedded = Inr
  show ?thesis
  proof (cases "write_artifact c store video_id embeddings")
    case (Pair raised written)
    note wrote = Pair
    show ?thesis
    proof (cases raised)
      case (Some e)
      then show ?thesis
        using assms embedded wrote
        by (simp add: generate_body_def Let_def split: option.splits if_splits)
    next
      case None
      have "written = store(video_id := Some (Pickled embeddings))"
        using wrote None by (simp add: write_artifact_None)
      then show ?thesis
        using assms embedded wrote None
        by (simp add: generate_body_def Let_def split: option.splits if_splits)
    qed
  qed
qed

lemma search_visual_content_ids:
  assumes "search_visual_content c store db video_id query limit = Inr results"
    and "store video_id = Some (Pickled items)"
  shows "set (map r_frame_id results) \<subseteq> set (map e_frame_id items)"
  using search_visual_content_Inr [OF assms(1)]
proof
  assume "results = []"
  then show ?thesis by simp
next
  assume "search_body c store db video_id query limit = Inr results"
  from search_body_Inr [OF this] show ?thesis
  proof (elim disjE exE conjE)
    assume "results = []"
    then show ?thesis by simp
  next
    fix items' tv scs
    assume stored: "store video_id = Some (Pickled items')"
      and sims: "similarities_loop c tv items' = Inr scs"
      and detailed: "detailed_results c db (slice_to limit (sort_reverse sc_similarity scs))
                       = Inr results"
    have same: "items' = items"
      using stored assms(2) by simp
    have "set (map r_frame_id results)
            \<subseteq> set (map sc_frame_id (slice_to limit (sort_reverse sc_similarity scs)))"
      using detailed_results_Inr [OF detailed] by blast
    also have "\<dots> \<subseteq> set (map sc_frame_id scs)"
      using set_slice_to [of limit "sort_reverse sc_similarity scs"]
      by (auto simp: set_sort_reverse)
    also have "\<dots> = set (map e_frame_id items)"
      using similarities_loop_ids [OF sims] same by simp
    finally show ?thesis .
  qed
qed

text \<open>
  Claim C5, as amended. Whenever \<open>generate_frame_embeddings\<close> returns the success
  report that names an embeddings file, the loop of that call has produced a list of
  triples that is not empty, the report counts them, and the store it leaves behind
  is the store before the call with the artifact of the video replaced by exactly
  these triples. Each of them is the id, the timestamp and the encoded image of a
  frame of the video whose image exists. A search on the video right afterwards
  returns frames of these triples only.
\<close>

theorem generate_frame_embeddings_replaces:
  assumes "generate_frame_embeddings c files db store video_id
             = (Inr (Generated n m (Some file)), store')"
  shows "\<exists>embeddings.
           embed_frames c files (filter (\<lambda>f. sql_eq (f_video_id f) video_id) db) = Inr embeddings
           \<and> embeddings \<noteq> [] \<and> length embeddings = n
           \<and> store' = store(video_id := Some (Pickled embeddings))
           \<and> (\<forall>item \<in> set embeddings. \<exists>frame \<in> set db.
                 sql_eq (f_video_id frame) video_id
                 \<and> e_frame_id item = f_id frame \<and> e_timestamp item = f_timestamp frame
                 \<and> (\<exists>path. f_path frame = Some path \<and> path \<in> files
                       \<and> encode_image c path = Inr (e_embedding item)))
           \<and> (\<forall>results. search_visual_content c store' db video_id query limit = Inr results
                 \<longrightarrow> set (map r_frame_id results) \<subseteq> set (map e_frame_id embeddings))"
proof -
  from generate_body_Generated [OF generate_frame_embeddings_Generated [OF assms]]
  obtain embeddings where
    loop: "embed_frames c files (filter (\<lambda>f. sql_eq (f_video_id f) video_id) db) = Inr embeddings"
    and some: "embeddings \<noteq> []" and count: "length embeddings = n"
    and store': "store' = store(video_id := Some (Pickled embeddings))"
    by blast
  have origin: "\<forall>item \<in> set embeddings. \<exists>frame \<in> set db.
                 sql_eq (f_video_id frame) video_id
                 \<and> e_frame_id item = f_id frame \<and> e_timestamp item = f_timestamp frame
                 \<and> (\<exists>path. f_path frame = Some path \<and> path \<in> files
                       \<and> encode_image c path = Inr (e_embedding item))"
  proof
    fix item
    assume "item \<in> set embeddings"
    with embed_frames_items [OF loop]
    obtain frame where "frame \<in> set (filter (\<lambda>f. sql_eq (f_video_id f) video_id) db)"
      and "e_frame_id item = f_id frame \<and> e_timestamp item = f_timestamp frame
           \<and> (\<exists>path. f_path frame = Some path \<and> path \<in> files
                 \<and> encode_image c path = Inr (e_embedding item))"
      by blast
    then show "\<exists>frame \<in> set db.
                 sql_eq (f_video_id frame) video_id
                 \<and> e_frame_id item = f_id frame \<and> e_timestamp item = f_timestamp frame
                 \<and> (\<exists>path. f_path frame = Some path \<and> path \<in> files
                       \<and> encode_image c path = Inr (e_embedding item))"
      by auto
  qed
  have stored: "store' video_id = Some (Pickled embeddings)"
    by (simp add: store')
  have search: "\<forall>results. search_visual_content c store' db video_id query limit = Inr results
                 \<longrightarrow> set (map r_frame_id results) \<subseteq> set (map e_frame_id embeddings)"
  proof (intro allI impI)
    fix results
    assume "search_visual_content c store' db video_id query limit = Inr results"
    then show "set (map r_frame_id results) \<subseteq> set (map e_frame_id embeddings)"
      using stored by (rule search_visual_content_ids)
  qed
  from loop some count store' origin search show ?thesis
    by blast
qed

text \<open>
  The theorem at work. Of the three frames of video 1 the images \<open>a.jpg\<close> and \<open>c.jpg\<close>
  exist: the call embeds the frames 1 and 3, reports two processed frames of three
  and the file of the artifact, and replaces the artifact of three triples by these
  two; a search right afterwards returns the frames 3 and 1.
\<close>

theorem generate_frame_embeddings_replaces_witness:
  "generate_frame_embeddings demo_runtime {py ''a.jpg'', py ''c.jpg''} demo_frames demo_store 1
     = (Inr (Generated 2 3 (Some (embeddings_file_path 1))),
        demo_store(1 := Some (Pickled
          [\<lparr>e_frame_id = 1, e_timestamp = Some 0, e_embedding = [1, 0]\<rparr>,
           \<lparr>e_frame_id = 3, e_timestamp = Some 20, e_embedding = [3 / 4, 1 / 2]\<rparr>])))
   \<and> embeddings_file_path 1 = py ''storage/embeddings/video_1/frame_embeddings.pkl''
   \<and> search_visual_content demo_runtime
        (demo_store(1 := Some (Pickled
          [\<lparr>e_frame_id = 1, e_timestamp = Some 0, e_embedding = [1, 0]\<rparr>,
           \<lparr>e_frame_id = 3, e_timestamp = Some 20, e_embedding = [3 / 4, 1 / 2]\<rparr>])))
        demo_frames 1 (py ''sky'') 5
     = Inr [\<lparr>r_frame_id = 3, r_timestamp = Some 20, r_path = Some (py ''c.jpg''), r_similarity = 1 / 2\<rparr>,
            \<lparr>r_frame_id = 1, r_timestamp = Some 0, r_path = Some (py ''a.jpg''), r_similarity = 0\<rparr>]
   \<and> set (map r_frame_id
        [\<lparr>r_frame_id = 3, r_timestamp = Some 20, r_path = Some (py ''c.jpg''), r_similarity = 1 / 2\<rparr>,
         \<lparr>r_frame_id = 1, r_timestamp = Some 0, r_path = Some (py ''a.jpg''), r_similarity = 0::real\<rparr>])
       \<subseteq> set (map e_frame_id
          [\<lparr>e_frame_id = 1, e_timestamp = Some 0, e_embedding = [1, 0]\<rparr>,
           \<lparr>e_frame_id = 3, e_timestamp = Some 20, e_embedding = [3 / 4, 1 / 2::real]\<rparr>])"
proof -
  have run: "generate_frame_embeddings demo_runtime {py ''a.jpg'', py ''c.jpg''} demo_frames
               demo_store 1
     = (Inr (Generated 2 3 (Some (embeddings_file_path 1))),
        demo_store(1 := Some (Pickled
          [\<lparr>e_frame_id = 1, e_timestamp = Some 0, e_embedding = [1, 0]\<rparr>,
           \<lparr>e_frame_id = 3, e_timestamp = Some 20, e_embedding = [3 / 4, 1 / 2]\<rparr>])))"
    by (simp add: generate_frame_embeddings_def generate_body_def write_artifact_def
          embed_frame_def frame_body_def demo_runtime_def demo_frames_def sql_eq_def py_def)
  have path: "embeddings_file_path 1 = py ''storage/embeddings/video_1/frame_embeddings.pkl''"
    by (simp add: embeddings_file_path_def str_int_def decimal_digit py_def)
  have search: "search_visual_content demo_runtime
        (demo_store(1 := Some (Pickled
          [\<lparr>e_frame_id = 1, e_timestamp = Some 0, e_embedding = [1, 0]\<rparr>,
           \<lparr>e_frame_id = 3, e_timestamp = Some 20, e_embedding = [3 / 4, 1 / 2]\<rparr>])))
        demo_frames 1 (py ''sky'') 5
     = Inr [\<lparr>r_frame_id = 3, r_timestamp = Some 20, r_path = Some (py ''c.jpg''), r_similarity = 1 / 2\<rparr>,
            \<lparr>r_frame_id = 1, r_timestamp = Some 0, r_path = Some (py ''a.jpg''), r_similarity = 0\<rparr>]"
    by (simp add: search_visual_content_def search_body_def query_frame_def demo_runtime_def
          demo_frames_def sort_reverse_def slice_to_def py_def)
  from generate_frame_embeddings_replaces [OF run, of "py ''sky''" 5] run path search
  show ?thesis
    by simp
qed

text \<open>
  Claim C5 as stated fails. When the three frame images of video 1 are gone from the
  disk, the call completes with a success report, no frame processed and no file:
  nothing is written, and a search still returns the three frames of the artifact of
  the earlier run. And on a full disk the call that embeds the frames 1 and 3 opens
  the artifact and fails to write it: it completes with an error report, and the
  artifact left behind holds no triples at all.
\<close>

theorem generate_frame_embeddings_not_replaced:
  "generate_frame_embeddings demo_runtime {} demo_frames demo_store 1
     = (Inr (Generated 0 3 None), demo_store)
   \<and> search_visual_content demo_runtime demo_store demo_frames 1 (py ''sky'') 5
     = Inr [\<lparr>r_frame_id = 2, r_timestamp = Some 10, r_path = Some (py ''b.jpg''), r_similarity = 1\<rparr>,
            \<lparr>r_frame_id = 3, r_timestamp = Some 20, r_path = Some (py ''c.jpg''), r_similarity = 1 / 2\<rparr>,
            \<lparr>r_frame_id = 1, r_timestamp = Some 0, r_path = Some (py ''a.jpg''), r_similarity = 0\<rparr>]
   \<and> generate_frame_embeddings full_disk_runtime {py ''a.jpg'', py ''c.jpg''} demo_frames
        demo_store 1
     = (Inr (GenerationError (Exception (py ''No space left on device''))),
        demo_store(1 := Some (Unreadable (Exception (py ''Ran out of input'')))))"
proof -
  have missing: "generate_frame_embeddings demo_runtime {} demo_frames demo_store 1
     = (Inr (Generated 0 3 None), demo_store)"
    by (simp add: generate_frame_embeddings_def generate_body_def write_artifact_def
          embed_frame_def frame_body_def demo_runtime_def demo_frames_def sql_eq_def py_def)
  have search: "search_visual_content demo_runtime demo_store demo_frames 1 (py ''sky'') 5
     = Inr [\<lparr>r_frame_id = 2, r_timestamp = Some 10, r_path = Some (py ''b.jpg''), r_similarity = 1\<rparr>,
            \<lparr>r_frame_id = 3, r_timestamp = Some 20, r_path = Some (py ''c.jpg''), r_similarity = 1 / 2\<rparr>,
            \<lparr>r_frame_id = 1, r_timestamp = Some 0, r_path = Some (py ''a.jpg''), r_similarity = 0\<rparr>]"
    by (simp add: search_visual_content_def search_body_def query_frame_def demo_runtime_def
          demo_store_def demo_frames_def sort_reverse_def slice_to_def py_def)
  have full: "generate_frame_embeddings full_disk_runtime {py ''a.jpg'', py ''c.jpg''} demo_frames
        demo_store 1
     = (Inr (GenerationError (Exception (py ''No space left on device''))),
        demo_store(1 := Some (Unreadable (Exception (py ''Ran out of input'')))))"
    by (simp add: generate_frame_embeddings_def generate_body_def write_artifact_def
          embed_frame_def frame_body_def full_disk_runtime_def demo_runtime_def demo_frames_def
          sql_eq_def py_def)
  from missing search full show ?thesis
    by simp
qed

section \<open>Serving frame images\<close>

text \<open>
  The route \<open>GET /frames/storage/{file_path:path}\<close>, on a POSIX system. The functions
  of \<open>posixpath\<close> that it calls work on the text of a path; \<open>/\<close> is the character 47
  and \<open>.\<close> the character 46.
\<close>

definition startswith :: "pystr \<Rightarrow> pystr \<Rightarrow> bool" where
  "startswith s p = (take (length p) s = p)"

definition endswith :: "pystr \<Rightarrow> pystr \<Rightarrow> bool" where
  "endswith s p = (length p \<le> length s \<and> drop (length s - length p) s = p)"

text \<open>\<open>s.split(d)\<close> for a separator of one character, and \<open>d.join(parts)\<close>.\<close>

fun split_on :: "nat \<Rightarrow> pystr \<Rightarrow> pystr list" where
  "split_on d [] = [[]]"
| "split_on d (x # xs) =
     (if x = d then [] # split_on d xs
      else case split_on d xs of
             [] \<Rightarrow> [[x]]
           | part # parts \<Rightarrow> (x # part) # parts)"

fun join_with :: "nat \<Rightarrow> pystr list \<Rightarrow> pystr" where
  "join_with d [] = []"
| "join_with d [part] = part"
| "join_with d (part # parts) = part @ d # join_with d parts"

text \<open>\<open>os.path.join(a, b)\<close>: an absolute \<open>b\<close> replaces \<open>a\<close>.\<close>

definition path_join :: "pystr \<Rightarrow> pystr \<Rightarrow> pystr" where
  "path_join a b =
     (if startswith b [47] then b
      else if a = [] \<or> endswith a [47] then a @ b
      else a @ [47] @ b)"

text \<open>
  \<open>os.path.normpath\<close>: the loop over the components keeps a list of the components
  so far; \<open>..\<close> removes the last of them, and is kept at the start of a relative
  path.
\<close>

definition normpath_step :: "nat \<Rightarrow> pystr list \<Rightarrow> pystr \<Rightarrow> pystr list" where
  "normpath_step initial_slashes new_comps name =
     (if name = [] \<or> name = [46] then new_comps
      else if name \<noteq> [46, 46] \<or> (initial_slashes = 0 \<and> new_comps = [])
                \<or> (new_comps \<noteq> [] \<and> last new_comps = [46, 46])
      then new_comps @ [name]
      else if new_comps \<noteq> [] then butlast new_comps
      else new_comps)"

definition normpath :: "pystr \<Rightarrow> pystr" where
  "normpath path =
     (if path = [] then [46]
      else let initial_slashes =
                 (if startswith path [47]
                  then (if startswith path [47, 47] \<and> \<not> startswith path [47, 47, 47]
                        then 2 else 1)
                  else 0);
               comps = foldl (normpath_step initial_slashes) [] (split_on 47 path);
               joined = replicate initial_slashes 47 @ join_with 47 comps
           in if joined = [] then [46] else joined)"

text \<open>\<open>os.path.abspath\<close>, where \<open>getcwd\<close> is the text of the working directory.\<close>

definition abspath :: "pystr \<Rightarrow> pystr \<Rightarrow> pystr" where
  "abspath getcwd path =
     normpath (if startswith path [47] then path else path_join getcwd path)"

text \<open>
  The file system: the directories and the regular files, each named by the list of
  the components of its absolute path (the root is \<open>[]\<close>), and the working directory
  of the server. There are no symbolic links. The system resolves a path one
  component at a time, starting at the root or at the working directory; every
  component but the last is looked up in a directory. \<open>os.path.exists\<close> is false
  for the empty path and for a path with a null character.
\<close>

record filesystem =
  dirs :: "pystr list set"
  files :: "pystr list set"
  cwd :: "pystr list"

fun walk :: "pystr list set \<Rightarrow> pystr list \<Rightarrow> pystr list \<Rightarrow> pystr list option" where
  "walk ds cur [] = Some cur"
| "walk ds cur (name # comps) =
     (if cur \<notin> ds then None
      else if name = [] \<or> name = [46] then walk ds cur comps
      else if name = [46, 46] then walk ds (butlast cur) comps
      else walk ds (cur @ [name]) comps)"

definition resolve :: "filesystem \<Rightarrow> pystr \<Rightarrow> pystr list option" where
  "resolve fs path =
     walk (dirs fs) (if startswith path [47] then [] else cwd fs) (split_on 47 path)"

definition path_exists :: "filesystem \<Rightarrow> pystr \<Rightarrow> bool" where
  "path_exists fs path =
     (path \<noteq> [] \<and> 0 \<notin> set path \<and>
      (case resolve fs path of
         None \<Rightarrow> False
       | Some entry \<Rightarrow> entry \<in> dirs fs \<or> entry \<in> files fs))"

definition getcwd :: "filesystem \<Rightarrow> pystr" where
  "getcwd fs = 47 # join_with 47 (cwd fs)"

text \<open>
  The route returns the response that sends the file at \<open>storage_path\<close>, or raises an
  \<open>HTTPException\<close> with a status code.
\<close>

datatype response = FileResponse pystr | HTTPException nat

definition serve_frame_image :: "filesystem \<Rightarrow> pystr \<Rightarrow> response" where
  "serve_frame_image fs file_path =
     (let storage_path = path_join (py ''storage'') file_path in
      if \<not> path_exists fs storage_path then HTTPException 404
      else let abs_storage_path = abspath (getcwd fs) storage_path;
               abs_storage_dir = abspath (getcwd fs) (py ''storage'')
           in if \<not> startswith abs_storage_path abs_storage_dir then HTTPException 403
              else FileResponse storage_path)"

text \<open>
  The storage root is the directory \<open>storage\<close> of the working directory; an entry
  lies inside it when the components of the root start the components of the entry.
\<close>

definition inside_storage_root :: "filesystem \<Rightarrow> pystr list \<Rightarrow> bool" where
  "inside_storage_root fs entry =
     (take (length (cwd fs @ [py ''storage''])) entry = cwd fs @ [py ''storage''])"

text \<open>
  A server in \<open>/app\<close>, with a frame in \<open>/app/storage/frames/1\<close> and a file in the
  directory \<open>/app/storage_backup\<close> beside the storage root.
\<close>

definition demo_filesystem :: filesystem where
  "demo_filesystem =
     \<lparr>dirs = {[], [py ''app''], [py ''app'', py ''storage''],
              [py ''app'', py ''storage'', py ''frames''],
              [py ''app'', py ''storage'', py ''frames'', py ''1''],
              [py ''app'', py ''storage_backup'']},
      files = {[py ''app'', py ''storage'', py ''frames'', py ''1'', py ''frame_000000_0.00s.jpg''],
               [py ''app'', py ''storage_backup'', py ''secret.jpg'']},
      cwd = [py ''app'']\<rparr>"

text \<open>
  Claim C8 does not hold of the code. The check compares the texts of the two
  absolute paths with \<open>startswith\<close>: the request for \<open>../storage_backup/secret.jpg\<close>
  resolves to the file \<open>/app/storage_backup/secret.jpg\<close>, which is not inside the
  storage root \<open>/app/storage\<close>, and the text of its absolute path starts with
  \<open>/app/storage\<close>, so the file is served. The request for a frame inside the storage
  root is served, and a request for \<open>../etc\<close> is rejected.
\<close>

theorem serve_frame_image_outside_storage_root:
  "serve_frame_image demo_filesystem (py ''../storage_backup/secret.jpg'')
     = FileResponse (py ''storage/../storage_backup/secret.jpg'')
   \<and> resolve demo_filesystem (py ''storage/../storage_backup/secret.jpg'')
       = Some [py ''app'', py ''storage_backup'', py ''secret.jpg'']
   \<and> [py ''app'', py ''storage_backup'', py ''secret.jpg''] \<in> files demo_filesystem
   \<and> \<not> inside_storage_root demo_filesystem [py ''app'', py ''storage_backup'', py ''secret.jpg'']
   \<and> abspath (getcwd demo_filesystem) (py ''storage/../storage_backup/secret.jpg'')
       = py ''/app/storage_backup/secret.jpg''
   \<and> abspath (getcwd demo_filesystem) (py ''storage'') = py ''/app/storage''
   \<and> serve_frame_image demo_filesystem (py ''frames/1/frame_000000_0.00s.jpg'')
       = FileResponse (py ''storage/frames/1/frame_000000_0.00s.jpg'')
   \<and> serve_frame_image demo_filesystem (py ''../../etc'') = HTTPException 404"
  by (simp add: serve_frame_image_def path_exists_def resolve_def abspath_def normpath_def
        normpath_step_def path_join_def getcwd_def startswith_def endswith_def
        inside_storage_root_def demo_filesystem_def py_def Let_def)

section \<open>Video service\<close>

subsection \<open>Regular expressions\<close>

text \<open>
  The part of the syntax of \<open>re\<close> that the patterns of \<open>extract_video_id\<close> use: a
  literal text, \<open>.\<close> (any character but the newline, 10), a character set and a
  negated character set, the sequence, the alternative \<open>|\<close>, the greedy \<open>*\<close> and the
  capturing group; \<open>r+\<close> is \<open>r\<close> followed by \<open>r*\<close>.

  \<open>matches r s\<close> lists the ways in which \<open>r\<close> matches at the start of \<open>s\<close>, in the
  order in which the backtracking matcher of \<open>re\<close> tries them: the first alternative
  before the second, and one more turn of a star before its end. A match is the
  number of characters it takes and the text of the group, if the group took part.
\<close>

datatype regex =
    Lit pystr
  | Dot
  | OneOf "nat list"
  | NoneOf "nat list"
  | Seq regex regex
  | Alt regex regex
  | Star regex
  | Group regex

definition Plus :: "regex \<Rightarrow> regex" where
  "Plus r = Seq r (Star r)"

type_synonym match = "nat \<times> pystr option"

definition then_match :: "match \<Rightarrow> match \<Rightarrow> match" where
  "then_match m1 m2 = (fst m1 + fst m2, case snd m2 of None \<Rightarrow> snd m1 | Some g \<Rightarrow> Some g)"

function matches :: "regex \<Rightarrow> pystr \<Rightarrow> match list" where
  "matches (Lit w) s = (if take (length w) s = w then [(length w, None)] else [])"
| "matches Dot s = (case s of [] \<Rightarrow> [] | x # xs \<Rightarrow> if x \<noteq> 10 then [(1, None)] else [])"
| "matches (OneOf cs) s =
     (case s of [] \<Rightarrow> [] | x # xs \<Rightarrow> if x \<in> set cs then [(1, None)] else [])"
| "matches (NoneOf cs) s =
     (case s of [] \<Rightarrow> [] | x # xs \<Rightarrow> if x \<notin> set cs then [(1, None)] else [])"
| "matches (Seq r1 r2) s =
     concat (map (\<lambda>m1. map (then_match m1) (matches r2 (drop (fst m1) s))) (matches r1 s))"
| "matches (Alt r1 r2) s = matches r1 s @ matches r2 s"
| "matches (Star r) s =
     concat (map (\<lambda>m1. if 0 < fst m1 \<and> fst m1 \<le> length s
                         then map (then_match m1) (matches (Star r) (drop (fst m1) s))
                         else [])
                 (matches r s))
     @ [(0, None)]"
| "matches (Group r) s = map (\<lambda>m. (fst m, Some (take (fst m) s))) (matches r s)"
  by pat_completeness auto
termination
  by (relation "measures [\<lambda>(r, s). size r, \<lambda>(r, s). length s]") auto

text \<open>
  \<open>re.search(pattern, s)\<close>: the first match at the leftmost position that has one.
  \<open>group1\<close> is \<open>match.group(1)\<close>.
\<close>

fun re_search :: "regex \<Rightarrow> pystr \<Rightarrow> match option" where
  "re_search r [] = (case matches r [] of [] \<Rightarrow> None | m # ms \<Rightarrow> Some m)"
| "re_search r (x # xs) =
     (case matches r (x # xs) of [] \<Rightarrow> re_search r xs | m # ms \<Rightarrow> Some m)"

definition group1 :: "match \<Rightarrow> pystr option" where
  "group1 m = snd m"

subsection \<open>Creating a video record\<close>

text \<open>
  The two patterns of \<open>extract_video_id\<close>. The characters \<open>&\<close>, newline, \<open>?\<close> and \<open>#\<close>
  are 38, 10, 63 and 35.
\<close>

definition id_group :: regex where
  "id_group = Group (Plus (NoneOf [38, 10, 63, 35]))"

definition patterns :: "regex list" where
  "patterns =
     [Seq (Alt (Lit (py ''youtube.com/watch?v=''))
            (Alt (Lit (py ''youtu.be/'')) (Lit (py ''youtube.com/embed/''))))
          id_group,
      Seq (Lit (py ''youtube.com/''))
        (Seq (Star Dot) (Seq (OneOf [63, 38]) (Seq (Lit (py ''v='')) id_group)))]"

fun first_match :: "regex list \<Rightarrow> pystr \<Rightarrow> match option" where
  "first_match [] url = None"
| "first_match (pattern # rest) url =
     (case re_search pattern url of
        Some m \<Rightarrow> Some m
      | None \<Rightarrow> first_match rest url)"

definition extract_video_id :: "pystr \<Rightarrow> py_error + pystr option" where
  "extract_video_id url =
     (case first_match patterns url of
        Some m \<Rightarrow> Inr (group1 m)
      | None \<Rightarrow> Inl (ValueError (py ''Could not extract video ID from URL: '' @ url)))"

text \<open>
  The database session of the service: each of its calls either succeeds or raises
  the error the field gives, and \<open>next_id\<close> is the primary key that the database
  gives to the next row. The session is the one that the route opens for the
  request, and holds no pending change when \<open>create_video\<close> is called; the state is
  the table \<open>videos\<close>.
\<close>

record db_session =
  select_error :: "py_error option"
  commit_error :: "py_error option"
  refresh_error :: "py_error option"
  rollback_error :: "py_error option"
  next_id :: int

text \<open>\<open>str(x)\<close> inside an f-string, for a text or \<open>None\<close>.\<close>

definition str_optional :: "pystr option \<Rightarrow> pystr" where
  "str_optional x = (case x of None \<Rightarrow> py ''None'' | Some s \<Rightarrow> s)"

text \<open>The body of the \<open>try\<close> block of \<open>create_video\<close>, and the table it leaves behind.\<close>

definition create_video_body ::
  "db_session \<Rightarrow> video list \<Rightarrow> pystr \<Rightarrow> pystr option \<Rightarrow> (py_error + video) \<times> video list" where
  "create_video_body c videos url title =
     (case extract_video_id url of
        Inl e \<Rightarrow> (Inl e, videos)
      | Inr video_id_str \<Rightarrow>
          (case select_error c of
             Some e \<Rightarrow> (Inl e, videos)
           | None \<Rightarrow>
               (case find (\<lambda>v. sql_eq (v_url v) url) videos of
                  Some existing \<Rightarrow> (Inr existing, videos)
                | None \<Rightarrow>
                    let video = \<lparr>v_id = next_id c, v_url = Some url,
                                 v_title = Some (if title = None \<or> title = Some []
                                                 then py ''Video '' @ str_optional video_id_str
                                                 else the title)\<rparr>
                    in case commit_error c of
                         Some e \<Rightarrow> (Inl e, videos)
                       | None \<Rightarrow>
                           (case refresh_error c of
                              Some e \<Rightarrow> (Inl e, videos @ [video])
                            | None \<Rightarrow> (Inr video, videos @ [video])))))"

text \<open>
  The handler \<open>except Exception as e\<close> rolls the session back and raises \<open>e\<close> again;
  an error of the rollback is raised in its place.
\<close>

definition create_video ::
  "db_session \<Rightarrow> video list \<Rightarrow> pystr \<Rightarrow> pystr option \<Rightarrow> (py_error + video) \<times> video list" where
  "create_video c videos url title =
     (case create_video_body c videos url title of
        (Inr video, videos') \<Rightarrow> (Inr video, videos')
      | (Inl e, videos') \<Rightarrow>
          if is_Exception e
          then (case rollback_error c of
                  None \<Rightarrow> (Inl e, videos')
                | Some rollback_e \<Rightarrow> (Inl rollback_e, videos'))
          else (Inl e, videos'))"

text \<open>A session without errors, and one whose database cannot be reached.\<close>

definition demo_session :: db_session where
  "demo_session =
     \<lparr>select_error = None, commit_error = None, refresh_error = None, rollback_error = None,
      next_id = 2\<rparr>"

definition unreachable_session :: db_session where
  "unreachable_session =
     \<lparr>select_error = Some (Exception (py ''connection refused'')),
      commit_error = Some (Exception (py ''connection refused'')),
      refresh_error = Some (Exception (py ''connection refused'')),
      rollback_error = Some (Exception (py ''connection refused'')),
      next_id = 2\<rparr>"

definition demo_videos :: "video list" where
  "demo_videos =
     [\<lparr>v_id = 1, v_url = Some (py ''https://youtu.be/abc123''),
       v_title = Some (py ''Video abc123'')\<rparr>]"

text \<open>
  Claim C10. Whenever no video id can be extracted from the URL, \<open>create_video\<close>
  raises an error and leaves the table of videos as it was, whatever the table holds
  and whatever the session would do: the error raised is the \<open>ValueError\<close> of
  \<open>extract_video_id\<close>, or the error of the rollback when the rollback fails.
\<close>

theorem create_video_rejects_url:
  assumes "extract_video_id url = Inl e"
  shows "snd (create_video c videos url title) = videos
         \<and> fst (create_video c videos url title)
             = Inl (case rollback_error c of None \<Rightarrow> e | Some rollback_e \<Rightarrow> rollback_e)
         \<and> e = ValueError (py ''Could not extract video ID from URL: '' @ url)"
proof -
  have e: "e = ValueError (py ''Could not extract video ID from URL: '' @ url)"
    using assms by (simp add: extract_video_id_def split: option.splits)
  have body: "create_video_body c videos url title = (Inl e, videos)"
    using assms by (simp add: create_video_body_def)
  have "is_Exception e"
    by (simp add: e)
  then have "create_video c videos url title
               = (Inl (case rollback_error c of None \<Rightarrow> e | Some rollback_e \<Rightarrow> rollback_e), videos)"
    by (simp add: create_video_def body split: option.splits)
  then show ?thesis
    using e by simp
qed

text \<open>
  The theorem at work. No id can be extracted from \<open>https://vimeo.com/123\<close> or from
  \<open>https://youtube.com/watch?v=\<close>: the call raises and the table is unchanged, also
  when the database cannot be reached. On the same table and session the URL
  \<open>https://www.youtube.com/watch?v=xyz&t=5\<close> gets the new row 2.
\<close>

theorem create_video_rejects_url_witness:
  "extract_video_id (py ''https://vimeo.com/123'')
     = Inl (ValueError (py ''Could not extract video ID from URL: https://vimeo.com/123''))
   \<and> create_video demo_session demo_videos (py ''https://vimeo.com/123'') None
     = (Inl (ValueError (py ''Could not extract video ID from URL: https://vimeo.com/123'')),
        demo_videos)
   \<and> create_video unreachable_session demo_videos (py ''https://vimeo.com/123'') None
     = (Inl (Exception (py ''connection refused'')), demo_videos)
   \<and> extract_video_id (py ''https://youtube.com/watch?v='')
     = Inl (ValueError (py ''Could not extract video ID from URL: https://youtube.com/watch?v=''))
   \<and> snd (create_video demo_session demo_videos (py ''https://youtube.com/watch?v='') None)
     = demo_videos
   \<and> create_video demo_session demo_videos (py ''https://www.youtube.com/watch?v=xyz&t=5'') None
     = (Inr \<lparr>v_id = 2, v_url = Some (py ''https://www.youtube.com/watch?v=xyz&t=5''),
              v_title = Some (py ''Video xyz'')\<rparr>,
        demo_videos @
          [\<lparr>v_id = 2, v_url = Some (py ''https://www.youtube.com/watch?v=xyz&t=5''),
            v_title = Some (py ''Video xyz'')\<rparr>])"
proof -
  have vimeo: "extract_video_id (py ''https://vimeo.com/123'')
     = Inl (ValueError (py ''Could not extract video ID from URL: https://vimeo.com/123''))"
    by (simp add: extract_video_id_def patterns_def id_group_def Plus_def then_match_def py_def)
  have empty: "extract_video_id (py ''https://youtube.com/watch?v='')
     = Inl (ValueError (py ''Could not extract video ID from URL: https://youtube.com/watch?v=''))"
    by (simp add: extract_video_id_def patterns_def id_group_def Plus_def then_match_def py_def)
  have good: "extract_video_id (py ''https://www.youtube.com/watch?v=xyz&t=5'')
     = Inr (Some (py ''xyz''))"
    by (simp add: extract_video_id_def patterns_def id_group_def Plus_def then_match_def
          group1_def py_def)
  have created: "create_video demo_session demo_videos
        (py ''https://www.youtube.com/watch?v=xyz&t=5'') None
     = (Inr \<lparr>v_id = 2, v_url = Some (py ''https://www.youtube.com/watch?v=xyz&t=5''),
              v_title = Some (py ''Video xyz'')\<rparr>,
        demo_videos @
          [\<lparr>v_id = 2, v_url = Some (py ''https://www.youtube.com/watch?v=xyz&t=5''),
            v_title = Some (py ''Video xyz'')\<rparr>])"
    unfolding create_video_def create_video_body_def good
    by (simp add: demo_session_def demo_videos_def sql_eq_def str_optional_def py_def Let_def)
  from create_video_rejects_url [OF vimeo, of demo_session demo_videos None]
    create_video_rejects_url [OF vimeo, of unreachable_session demo_videos None]
    create_video_rejects_url [OF empty, of demo_session demo_videos None]
    vimeo empty created
  show ?thesis
    by (simp add: demo_session_def unreachable_session_def prod_eq_iff)
qed

end
